theory Spec2Isabelle
  imports Main "HOL-Library.Sublist"
begin

section \<open>Python values and exceptions used by inventory.py\<close>

text \<open>
  The script handles whatever \<^verbatim>\<open>json.loads\<close> returns, so the data is modelled as an
  untyped JSON value. A Python dict keeps its insertion order and has unique keys; it is
  an association list here, read with \<open>map_of\<close>. Numbers are never inspected by the
  script (they are only ever compared with a string, asked for an attribute they do not
  have, or iterated), so an integer payload stands for every number.
\<close>

datatype json =
    JNull
  | JBool bool
  | JNum int
  | JStr string
  | JArr "json list"
  | JObj "(string \<times> json) list"

text \<open>The exception classes that can surface in the script. None is a subclass of another.\<close>

datatype py_exception =
    CalledProcessError
  | JSONDecodeError
  | FileNotFoundError
  | PermissionError
  | OSError
  | AttributeError
  | TypeError

type_synonym 'a result = "py_exception + 'a"

text \<open>\<^verbatim>\<open>obj.get(key, default)\<close>: only a dict has the method.\<close>

fun py_get :: "json \<Rightarrow> string \<Rightarrow> json \<Rightarrow> json result" where
  "py_get (JObj kvs) k dflt = Inr (case map_of kvs k of Some v \<Rightarrow> v | None \<Rightarrow> dflt)"
| "py_get _ k dflt = Inl AttributeError"

text \<open>
  \<^verbatim>\<open>for x in obj\<close>: a list yields its elements, a dict its keys, a string its characters
  as one-character strings; \<^verbatim>\<open>None\<close>, booleans and numbers are not iterable.
\<close>

fun py_iter :: "json \<Rightarrow> json list result" where
  "py_iter (JArr xs) = Inr xs"
| "py_iter (JObj kvs) = Inr (map (\<lambda>kv. JStr (fst kv)) kvs)"
| "py_iter (JStr s) = Inr (map (\<lambda>c. JStr [c]) s)"
| "py_iter _ = Inl TypeError"

text \<open>Truth value of an object in a condition.\<close>

fun py_truthy :: "json \<Rightarrow> bool" where
  "py_truthy JNull = False"
| "py_truthy (JBool b) = b"
| "py_truthy (JNum n) = (n \<noteq> 0)"
| "py_truthy (JStr s) = (s \<noteq> [])"
| "py_truthy (JArr xs) = (xs \<noteq> [])"
| "py_truthy (JObj kvs) = (kvs \<noteq> [])"

section \<open>get\_multipass\_vm\_info\<close>

text \<open>
  What running \<^verbatim>\<open>multipass list --format json\<close> can do: the process cannot be started
  (the operating system's error number says why), or it runs and exits with a return code
  and the text it wrote to standard output.
\<close>

datatype errno = ENOENT | EACCES | ENOEXEC

datatype proc_outcome =
    LaunchFailed errno
  | Exited int string

text \<open>Python raises the subclass of \<^verbatim>\<open>OSError\<close> that belongs to the error number.\<close>

fun os_error :: "errno \<Rightarrow> py_exception" where
  "os_error ENOENT = FileNotFoundError"
| "os_error EACCES = PermissionError"
| "os_error ENOEXEC = OSError"

text \<open>\<^verbatim>\<open>subprocess.run(..., capture_output=True, text=True, check=True)\<close>, giving
  \<^verbatim>\<open>result.stdout\<close>.\<close>

fun subprocess_run :: "proc_outcome \<Rightarrow> string result" where
  "subprocess_run (LaunchFailed e) = Inl (os_error e)"
| "subprocess_run (Exited rc out) = (if rc \<noteq> 0 then Inl CalledProcessError else Inr out)"

text \<open>
  \<^verbatim>\<open>json.loads\<close> is a parameter \<open>loads\<close> of the model: \<open>None\<close> stands for
  \<^verbatim>\<open>JSONDecodeError\<close>.
\<close>

definition json_loads :: "(string \<Rightarrow> json option) \<Rightarrow> string \<Rightarrow> json result" where
  "json_loads loads s = (case loads s of None \<Rightarrow> Inl JSONDecodeError | Some v \<Rightarrow> Inr v)"

text \<open>The \<^verbatim>\<open>except\<close> clause of line 19.\<close>

fun caught :: "py_exception \<Rightarrow> bool" where
  "caught CalledProcessError = True"
| "caught JSONDecodeError = True"
| "caught FileNotFoundError = True"
| "caught _ = False"

definition empty_vm_info :: json where
  "empty_vm_info = JObj [(''list'', JArr [])]"

definition get_multipass_vm_info :: "(string \<Rightarrow> json option) \<Rightarrow> proc_outcome \<Rightarrow> json result" where
  "get_multipass_vm_info loads outcome =
     (case (case subprocess_run outcome of
              Inl e \<Rightarrow> Inl e
            | Inr out \<Rightarrow> json_loads loads out) of
        Inl e \<Rightarrow> (if caught e then Inr empty_vm_info else Inl e)
      | Inr v \<Rightarrow> Inr v)"

section \<open>get\_project\_root\<close>

text \<open>
  \<^verbatim>\<open>os.path.dirname\<close> of posixpath: the head is everything up to and including the last
  slash; trailing slashes are stripped from it unless it consists of slashes only.
\<close>

definition dirname :: "string \<Rightarrow> string" where
  "dirname p =
     (let head = rev (dropWhile (\<lambda>c. c \<noteq> CHR ''/'') (rev p)) in
      if head \<noteq> [] \<and> \<not> list_all (\<lambda>c. c = CHR ''/'') head
      then rev (dropWhile (\<lambda>c. c = CHR ''/'') (rev head))
      else head)"

text \<open>\<^verbatim>\<open>os.path.join(a, b)\<close> of posixpath, for two arguments.\<close>

definition path_join :: "string \<Rightarrow> string \<Rightarrow> string" where
  "path_join a b =
     (if prefix ''/'' b then b
      else if a = [] \<or> suffix ''/'' a then a @ b
      else a @ ''/'' @ b)"

text \<open>
  The argument is \<^verbatim>\<open>os.path.abspath(__file__)\<close>, the absolute path of the script, which
  depends on where the script is installed.
\<close>

definition get_project_root :: "string \<Rightarrow> string" where
  "get_project_root script_path =
     (let script_dir = dirname script_path in
      dirname (dirname (dirname script_dir)))"

section \<open>get\_inventory\<close>

definition target_name :: string where
  "target_name = ''jterrazz-infra''"

text \<open>The loop of lines 37 to 41: the first record whose name is the target's.\<close>

fun find_target :: "json list \<Rightarrow> json option result" where
  "find_target [] = Inr None"
| "find_target (vm # vms) =
     (case py_get vm ''name'' JNull of
        Inl e \<Rightarrow> Inl e
      | Inr n \<Rightarrow> if n = JStr target_name then Inr (Some vm) else find_target vms)"

text \<open>\<^verbatim>\<open>ip.startswith(("127.", "172.", "10.42."))\<close>\<close>

definition excluded :: "string \<Rightarrow> bool" where
  "excluded ip = (prefix ''127.'' ip \<or> prefix ''172.'' ip \<or> prefix ''10.42.'' ip)"

text \<open>The loop of lines 58 to 63; only a string has \<^verbatim>\<open>startswith\<close>.\<close>

fun select_ip :: "json list \<Rightarrow> string option result" where
  "select_ip [] = Inr None"
| "select_ip (ip # ips) =
     (case ip of
        JStr s \<Rightarrow> if \<not> excluded s then Inr (Some s) else select_ip ips
      | _ \<Rightarrow> Inl AttributeError)"

text \<open>
  The inventory document. The script builds the base document and then assigns two of its
  entries in place; the model builds the document from the value of these two entries.
\<close>

definition inventory_doc :: "json list \<Rightarrow> (string \<times> json) list \<Rightarrow> json" where
  "inventory_doc hosts hostvars =
     JObj [(''all'', JObj [(''children'', JArr [JStr ''development''])]),
           (''development'', JObj [(''hosts'', JArr hosts)]),
           (''_meta'', JObj [(''hostvars'', JObj hostvars)])]"

definition base_inventory :: json where
  "base_inventory = inventory_doc [] []"

definition ssh_common_args :: string where
  "ssh_common_args = ''-o StrictHostKeyChecking=no -o UserKnownHostsFile=/dev/null''"

definition host_vars :: "string \<Rightarrow> string \<Rightarrow> json" where
  "host_vars vm_ip ssh_key_path =
     JObj [(''ansible_host'', JStr vm_ip),
           (''ansible_user'', JStr ''ubuntu''),
           (''ansible_ssh_private_key_file'', JStr ssh_key_path),
           (''ansible_ssh_common_args'', JStr ssh_common_args)]"

definition host_inventory :: "string \<Rightarrow> string \<Rightarrow> json" where
  "host_inventory vm_ip ssh_key_path =
     inventory_doc [JStr target_name] [(target_name, host_vars vm_ip ssh_key_path)]"

text \<open>Lines 36 to 77: the body of \<^verbatim>\<open>get_inventory\<close> after the two calls it starts with.\<close>

definition build_inventory :: "string \<Rightarrow> json \<Rightarrow> json result" where
  "build_inventory ssh_key_path multipass_data =
     (case py_get multipass_data ''list'' (JArr []) of
        Inl e \<Rightarrow> Inl e
      | Inr l \<Rightarrow>
     (case py_iter l of
        Inl e \<Rightarrow> Inl e
      | Inr vms \<Rightarrow>
     (case find_target vms of
        Inl e \<Rightarrow> Inl e
      | Inr None \<Rightarrow> Inr base_inventory
      | Inr (Some target_vm) \<Rightarrow>
          if \<not> py_truthy target_vm then Inr base_inventory
          else
     (case py_get target_vm ''state'' JNull of
        Inl e \<Rightarrow> Inl e
      | Inr st \<Rightarrow>
          if st \<noteq> JStr ''Running'' then Inr base_inventory
          else
     (case py_get target_vm ''ipv4'' (JArr []) of
        Inl e \<Rightarrow> Inl e
      | Inr a \<Rightarrow>
     (case py_iter a of
        Inl e \<Rightarrow> Inl e
      | Inr ips \<Rightarrow>
     (case select_ip ips of
        Inl e \<Rightarrow> Inl e
      | Inr None \<Rightarrow> Inr base_inventory
      | Inr (Some vm_ip) \<Rightarrow>
          if vm_ip = [] then Inr base_inventory
          else Inr (host_inventory vm_ip ssh_key_path))))))))"

definition get_inventory ::
  "(string \<Rightarrow> json option) \<Rightarrow> string \<Rightarrow> proc_outcome \<Rightarrow> json result" where
  "get_inventory loads script_path outcome =
     (let project_root = get_project_root script_path;
          ssh_key_path = path_join project_root ''local-data/ssh/id_rsa''
      in case get_multipass_vm_info loads outcome of
           Inl e \<Rightarrow> Inl e
         | Inr multipass_data \<Rightarrow> build_inventory ssh_key_path multipass_data)"

section \<open>json.dumps with an indent\<close>

text \<open>
  \<^verbatim>\<open>json.dumps(obj, indent=n)\<close> with the default \<^verbatim>\<open>ensure_ascii=True\<close>: every
  character outside the printable ASCII range, the backslash and the double quote are
  escaped. Characters are the 8-bit characters of HOL, so the escape of a character
  beyond U+00FF is not modelled.
\<close>

definition hex_digit :: "nat \<Rightarrow> char" where
  "hex_digit n = (if n < 10 then char_of (48 + n) else char_of (87 + n))"

definition escape_char :: "char \<Rightarrow> string" where
  "escape_char c =
     (if c = CHR 0x5C then [CHR 0x5C, CHR 0x5C]
      else if c = CHR 0x22 then [CHR 0x5C, CHR 0x22]
      else if c = CHR 0x08 then [CHR 0x5C, CHR ''b'']
      else if c = CHR 0x0C then [CHR 0x5C, CHR ''f'']
      else if c = CHR 0x0A then [CHR 0x5C, CHR ''n'']
      else if c = CHR 0x0D then [CHR 0x5C, CHR ''r'']
      else if c = CHR 0x09 then [CHR 0x5C, CHR ''t'']
      else if (of_char c :: nat) < 32 \<or> 126 < (of_char c :: nat)
      then [CHR 0x5C, CHR ''u'', CHR ''0'', CHR ''0'',
            hex_digit (of_char c div 16), hex_digit (of_char c mod 16)]
      else [c])"

definition encode_string :: "string \<Rightarrow> string" where
  "encode_string s = [CHR 0x22] @ concat (map escape_char s) @ [CHR 0x22]"

fun show_nat :: "nat \<Rightarrow> string" where
  "show_nat n =
     (if n < 10 then [char_of (48 + n)]
      else show_nat (n div 10) @ [char_of (48 + n mod 10)])"

definition show_int :: "int \<Rightarrow> string" where
  "show_int i = (if i < 0 then CHR ''-'' # show_nat (nat (- i)) else show_nat (nat i))"

fun join :: "string \<Rightarrow> string list \<Rightarrow> string" where
  "join sep [] = []"
| "join sep [x] = x"
| "join sep (x # y # ys) = x @ sep @ join sep (y # ys)"

text \<open>A line break followed by the indentation of a nesting level.\<close>

definition newline_indent :: "nat \<Rightarrow> nat \<Rightarrow> string" where
  "newline_indent indent level = CHR 0x0A # replicate (indent * level) CHR '' ''"

fun iterencode :: "nat \<Rightarrow> nat \<Rightarrow> json \<Rightarrow> string" where
  "iterencode indent level JNull = ''null''"
| "iterencode indent level (JBool b) = (if b then ''true'' else ''false'')"
| "iterencode indent level (JNum n) = show_int n"
| "iterencode indent level (JStr s) = encode_string s"
| "iterencode indent level (JArr xs) =
     (if xs = [] then ''[]''
      else ''['' @ newline_indent indent (Suc level)
           @ join (CHR '','' # newline_indent indent (Suc level))
                  (map (iterencode indent (Suc level)) xs)
           @ newline_indent indent level @ '']'')"
| "iterencode indent level (JObj kvs) =
     (if kvs = [] then ''{}''
      else ''{'' @ newline_indent indent (Suc level)
           @ join (CHR '','' # newline_indent indent (Suc level))
                  (map (\<lambda>kv. encode_string (fst kv) @ '': ''
                               @ iterencode indent (Suc level) (snd kv)) kvs)
           @ newline_indent indent level @ ''}'')"

definition json_dumps :: "nat \<Rightarrow> json \<Rightarrow> string" where
  "json_dumps indent obj = iterencode indent 0 obj"

text \<open>\<^verbatim>\<open>print\<close> writes the text and a line break to standard output.\<close>

definition py_print :: "string \<Rightarrow> string" where
  "py_print s = s @ [CHR 0x0A]"

section \<open>main\<close>

text \<open>
  The parsed command line: \<^verbatim>\<open>args.list\<close> is a flag, \<^verbatim>\<open>args.host\<close> is \<^verbatim>\<open>None\<close>
  unless \<^verbatim>\<open>--host NAME\<close> was given.
\<close>

record cli_args =
  arg_list :: bool
  arg_host :: "string option"

text \<open>The truth value of \<^verbatim>\<open>args.host\<close>: \<^verbatim>\<open>None\<close> and the empty string are false.\<close>

fun host_given :: "string option \<Rightarrow> bool" where
  "host_given None = False"
| "host_given (Some h) = (h \<noteq> [])"

text \<open>The result is the text written to standard output, or the exception that ends the
  program.\<close>

definition main ::
  "(string \<Rightarrow> json option) \<Rightarrow> string \<Rightarrow> proc_outcome \<Rightarrow> cli_args \<Rightarrow> string result" where
  "main loads script_path outcome args =
     (case get_inventory loads script_path outcome of
        Inl e \<Rightarrow> Inl e
      | Inr inventory \<Rightarrow>
          if arg_list args then Inr (py_print (json_dumps 2 inventory))
          else if host_given (arg_host args) then
            (case py_get inventory ''_meta'' (JObj []) of
               Inl e \<Rightarrow> Inl e
             | Inr meta \<Rightarrow>
            (case py_get meta ''hostvars'' (JObj []) of
               Inl e \<Rightarrow> Inl e
             | Inr hv \<Rightarrow>
            (case py_get hv (the (arg_host args)) (JObj []) of
               Inl e \<Rightarrow> Inl e
             | Inr hostvars \<Rightarrow> Inr (py_print (json_dumps 2 hostvars)))))
          else Inr (py_print (json_dumps 2 inventory)))"

section \<open>Vocabulary of the properties\<close>

text \<open>The value found in a document of nested dicts by following a list of keys.\<close>

fun json_path :: "string list \<Rightarrow> json \<Rightarrow> json option" where
  "json_path [] v = Some v"
| "json_path (k # ks) (JObj kvs) =
     (case map_of kvs k of None \<Rightarrow> None | Some v \<Rightarrow> json_path ks v)"
| "json_path (k # ks) _ = None"

text \<open>A VM record, given as the entries of its dict, that carries the target's name.\<close>

definition named_target :: "(string \<times> json) list \<Rightarrow> bool" where
  "named_target r = (map_of r ''name'' = Some (JStr target_name))"

text \<open>
  The shape the output of \<^verbatim>\<open>multipass list --format json\<close> is expected to have: a dict
  whose \<^verbatim>\<open>list\<close> entry, when there is one, is a list of dicts, each with an \<^verbatim>\<open>ipv4\<close>
  entry that, when there is one, is a list of strings. Any key may be missing and the name
  and the state may be any value.
\<close>

fun is_string :: "json \<Rightarrow> bool" where
  "is_string (JStr s) = True"
| "is_string _ = False"

fun vm_record_shaped :: "json \<Rightarrow> bool" where
  "vm_record_shaped (JObj r) =
     (case map_of r ''ipv4'' of
        None \<Rightarrow> True
      | Some (JArr ips) \<Rightarrow> list_all is_string ips
      | Some _ \<Rightarrow> False)"
| "vm_record_shaped _ = False"

fun vm_info_shaped :: "json \<Rightarrow> bool" where
  "vm_info_shaped (JObj kvs) =
     (case map_of kvs ''list'' of
        None \<Rightarrow> True
      | Some (JArr vms) \<Rightarrow> list_all vm_record_shaped vms
      | Some _ \<Rightarrow> False)"
| "vm_info_shaped _ = False"

text \<open>The invariant of the inventory document.\<close>

definition inventory_invariant :: "json \<Rightarrow> bool" where
  "inventory_invariant doc =
     (json_path [''all'', ''children''] doc = Some (JArr [JStr ''development''])
      \<and> (json_path [''development'', ''hosts''] doc = Some (JArr [])
         \<or> json_path [''development'', ''hosts''] doc = Some (JArr [JStr ''jterrazz-infra'']))
      \<and> (case json_path [''_meta'', ''hostvars''] doc of
           Some (JObj hostvars) \<Rightarrow>
             set (map fst hostvars) \<subseteq> {''jterrazz-infra''}
             \<and> ((json_path [''development'', ''hosts''] doc \<noteq> Some (JArr [])) = (hostvars \<noteq> []))
         | _ \<Rightarrow> False))"

text \<open>An example of what \<^verbatim>\<open>multipass list --format json\<close> prints for one running VM with
  the target's name, after decoding, as a function of the addresses of the VM.\<close>

definition vm_info_example :: "string list \<Rightarrow> json" where
  "vm_info_example ips =
     JObj [(''list'', JArr [JObj [(''ipv4'', JArr (map JStr ips)),
                                   (''name'', JStr ''jterrazz-infra''),
                                   (''release'', JStr ''Ubuntu 24.04 LTS''),
                                   (''state'', JStr ''Running'')]])]"

text \<open>Expected texts on standard output, written line by line.\<close>

definition quoted :: "string \<Rightarrow> string" where
  "quoted s = CHR 0x22 # s @ [CHR 0x22]"

definition text_lines :: "string list \<Rightarrow> string" where
  "text_lines ls = concat (map (\<lambda>l. l @ [CHR 0x0A]) ls)"

definition empty_inventory_text :: string where
  "empty_inventory_text = text_lines
     [''{'',
      ''  '' @ quoted ''all'' @ '': {'',
      ''    '' @ quoted ''children'' @ '': ['',
      ''      '' @ quoted ''development'',
      ''    ]'',
      ''  },'',
      ''  '' @ quoted ''development'' @ '': {'',
      ''    '' @ quoted ''hosts'' @ '': []'',
      ''  },'',
      ''  '' @ quoted ''_meta'' @ '': {'',
      ''    '' @ quoted ''hostvars'' @ '': {}'',
      ''  }'',
      ''}'']"

definition host_vars_text :: string where
  "host_vars_text = text_lines
     [''{'',
      ''  '' @ quoted ''ansible_host'' @ '': '' @ quoted ''192.168.64.10'' @ '','',
      ''  '' @ quoted ''ansible_user'' @ '': '' @ quoted ''ubuntu'' @ '','',
      ''  '' @ quoted ''ansible_ssh_private_key_file'' @ '': ''
           @ quoted ''/srv/infra/local-data/ssh/id_rsa'' @ '','',
      ''  '' @ quoted ''ansible_ssh_common_args'' @ '': ''
           @ quoted ''-o StrictHostKeyChecking=no -o UserKnownHostsFile=/dev/null'',
      ''}'']"

section \<open>Auxiliary facts\<close>

subsection \<open>The two loops and the body of get\_inventory\<close>

lemma py_get_eq_iff:
  "v \<noteq> dflt \<Longrightarrow> ((case map_of r k of Some x \<Rightarrow> x | None \<Rightarrow> dflt) = v) = (map_of r k = Some v)"
  by (cases "map_of r k") auto

lemma find_target_records:
  "find_target (map JObj recs) = Inr (map_option JObj (find named_target recs))"
  by (induction recs) (simp_all add: named_target_def py_get_eq_iff)

lemma select_ip_strings:
  "select_ip (map JStr ips) = Inr (find (\<lambda>s. \<not> excluded s) ips)"
  by (induction ips) simp_all

lemma get_inventory_fetch:
  "get_multipass_vm_info loads outcome = Inr d \<Longrightarrow>
   get_inventory loads sp outcome =
     build_inventory (path_join (get_project_root sp) ''local-data/ssh/id_rsa'') d"
  by (simp add: get_inventory_def)

lemma get_inventory_raise:
  "get_multipass_vm_info loads outcome = Inl e \<Longrightarrow> get_inventory loads sp outcome = Inl e"
  by (simp add: get_inventory_def)

lemma build_inventory_no_list:
  "map_of kvs ''list'' = None \<Longrightarrow> build_inventory k (JObj kvs) = Inr base_inventory"
  by (simp add: build_inventory_def)

lemma build_inventory_no_target:
  "map_of kvs ''list'' = Some (JArr (map JObj recs)) \<Longrightarrow> find named_target recs = None \<Longrightarrow>
   build_inventory k (JObj kvs) = Inr base_inventory"
  by (simp add: build_inventory_def find_target_records)

lemma named_target_nonempty: "named_target r \<Longrightarrow> r \<noteq> []"
  by (auto simp: named_target_def)

lemma find_named_nonempty: "find named_target recs = Some r \<Longrightarrow> r \<noteq> []"
  by (induction recs) (auto simp: named_target_def split: if_splits)

lemma build_inventory_not_running:
  "map_of kvs ''list'' = Some (JArr (map JObj recs)) \<Longrightarrow> find named_target recs = Some r \<Longrightarrow>
   map_of r ''state'' \<noteq> Some (JStr ''Running'') \<Longrightarrow>
   build_inventory k (JObj kvs) = Inr base_inventory"
  by (simp add: build_inventory_def find_target_records find_named_nonempty py_get_eq_iff)

lemma build_inventory_running:
  "map_of kvs ''list'' = Some (JArr (map JObj recs)) \<Longrightarrow> find named_target recs = Some r \<Longrightarrow>
   map_of r ''state'' = Some (JStr ''Running'') \<Longrightarrow>
   build_inventory k (JObj kvs) =
     (case py_iter (case map_of r ''ipv4'' of Some a \<Rightarrow> a | None \<Rightarrow> JArr []) of
        Inl e \<Rightarrow> Inl e
      | Inr ips \<Rightarrow>
     (case select_ip ips of
        Inl e \<Rightarrow> Inl e
      | Inr None \<Rightarrow> Inr base_inventory
      | Inr (Some vm_ip) \<Rightarrow>
          if vm_ip = [] then Inr base_inventory else Inr (host_inventory vm_ip k)))"
  by (simp add: build_inventory_def find_target_records find_named_nonempty)

lemma select_ip_Some: "select_ip xs = Inr (Some ip) \<Longrightarrow> \<not> excluded ip \<and> JStr ip \<in> set xs"
  by (induction xs) (auto split: json.splits if_splits)

lemma build_inventory_cases:
  "build_inventory k d = Inr doc \<Longrightarrow>
   doc = base_inventory \<or> (\<exists>ip. ip \<noteq> [] \<and> \<not> excluded ip \<and> doc = host_inventory ip k)"
  unfolding build_inventory_def
  by (auto split: sum.splits option.splits if_splits dest: select_ip_Some)


lemma build_inventory_empty_vm_info: "build_inventory k empty_vm_info = Inr base_inventory"
  by (simp add: build_inventory_def empty_vm_info_def)

lemma base_inventory_paths:
  "json_path [''all'', ''children''] base_inventory = Some (JArr [JStr ''development''])"
  "json_path [''development'', ''hosts''] base_inventory = Some (JArr [])"
  "json_path [''_meta'', ''hostvars''] base_inventory = Some (JObj [])"
  by (simp_all add: base_inventory_def inventory_doc_def)

lemma host_inventory_paths:
  "json_path [''all'', ''children''] (host_inventory ip k) = Some (JArr [JStr ''development''])"
  "json_path [''development'', ''hosts''] (host_inventory ip k) = Some (JArr [JStr ''jterrazz-infra''])"
  "json_path [''_meta'', ''hostvars''] (host_inventory ip k)
     = Some (JObj [(''jterrazz-infra'', host_vars ip k)])"
  by (simp_all add: host_inventory_def inventory_doc_def target_name_def)

lemma find_target_shaped:
  "list_all vm_record_shaped vms \<Longrightarrow>
   find_target vms = Inr None \<or> (\<exists>vm. find_target vms = Inr (Some vm) \<and> vm_record_shaped vm)"
proof (induction vms)
  case Nil
  then show ?case by simp
next
  case (Cons vm vms)
  then obtain r where "vm = JObj r" by (cases vm) auto
  with Cons show ?case by auto
qed

lemma select_ip_shaped:
  "list_all is_string ips \<Longrightarrow> \<exists>sel. select_ip ips = Inr sel"
proof (induction ips)
  case Nil
  then show ?case by simp
next
  case (Cons ip ips)
  then obtain s where "ip = JStr s" by (cases ip) auto
  with Cons show ?case by auto
qed

lemma select_tail_shaped:
  assumes "vm_record_shaped vm"
  shows "\<exists>doc. (case py_get vm ''ipv4'' (JArr []) of
        Inl e \<Rightarrow> Inl e
      | Inr a \<Rightarrow>
     (case py_iter a of
        Inl e \<Rightarrow> Inl e
      | Inr ips \<Rightarrow>
     (case select_ip ips of
        Inl e \<Rightarrow> Inl e
      | Inr None \<Rightarrow> Inr base_inventory
      | Inr (Some vm_ip) \<Rightarrow>
          if vm_ip = [] then Inr base_inventory
          else Inr (host_inventory vm_ip k)))) = Inr doc"
proof -
  from assms obtain r where vm: "vm = JObj r" by (cases vm) auto
  show ?thesis
  proof (cases "map_of r ''ipv4''")
    case None
    with vm show ?thesis by simp
  next
    case (Some a)
    with assms vm obtain ips where a: "a = JArr ips" and "list_all is_string ips"
      by (cases a) auto
    then obtain sel where "select_ip ips = Inr sel"
      using select_ip_shaped by blast
    with vm Some a show ?thesis by (cases sel) auto
  qed
qed

lemma build_inventory_total:
  assumes "vm_info_shaped d"
  shows "\<exists>doc. build_inventory k d = Inr doc"
proof -
  from assms obtain kvs where d: "d = JObj kvs" by (cases d) auto
  show ?thesis
  proof (cases "map_of kvs ''list''")
    case None
    with d show ?thesis by (simp add: build_inventory_no_list)
  next
    case (Some l)
    with assms d obtain vms where l: "l = JArr vms" and shaped: "list_all vm_record_shaped vms"
      by (cases l) auto
    from find_target_shaped [OF shaped] show ?thesis
    proof
      assume "find_target vms = Inr None"
      with d Some l show ?thesis by (simp add: build_inventory_def)
    next
      assume "\<exists>vm. find_target vms = Inr (Some vm) \<and> vm_record_shaped vm"
      then obtain vm where ft: "find_target vms = Inr (Some vm)" and vm: "vm_record_shaped vm"
        by blast
      from vm obtain r where r: "vm = JObj r" by (cases vm) auto
      from select_tail_shaped [OF vm, of k] obtain doc where
        "(case py_get vm ''ipv4'' (JArr []) of
        Inl e \<Rightarrow> Inl e
      | Inr a \<Rightarrow>
     (case py_iter a of
        Inl e \<Rightarrow> Inl e
      | Inr ips \<Rightarrow>
     (case select_ip ips of
        Inl e \<Rightarrow> Inl e
      | Inr None \<Rightarrow> Inr base_inventory
      | Inr (Some vm_ip) \<Rightarrow>
          if vm_ip = [] then Inr base_inventory
          else Inr (host_inventory vm_ip k)))) = Inr doc" by blast
      with d Some l ft r show ?thesis by (simp add: build_inventory_def)
    qed
  qed
qed

lemma inventory_invariant_base: "inventory_invariant base_inventory"
  by (simp add: inventory_invariant_def base_inventory_paths)

lemma inventory_invariant_host: "inventory_invariant (host_inventory ip k)"
  by (simp add: inventory_invariant_def host_inventory_paths)

lemma get_inventory_cases:
  assumes "get_inventory loads sp outcome = Inr doc"
  shows "doc = base_inventory
         \<or> (\<exists>ip. ip \<noteq> [] \<and> \<not> excluded ip
                \<and> doc = host_inventory ip (path_join (get_project_root sp) ''local-data/ssh/id_rsa''))"
proof -
  from assms obtain d where "get_multipass_vm_info loads outcome = Inr d"
    by (cases "get_multipass_vm_info loads outcome") (simp_all add: get_inventory_raise)
  with assms have "build_inventory (path_join (get_project_root sp) ''local-data/ssh/id_rsa'') d = Inr doc"
    by (simp add: get_inventory_fetch)
  then show ?thesis by (rule build_inventory_cases)
qed



lemma hostvars_lookup_base:
  "json_path [''_meta'', ''hostvars'', h] base_inventory = None"
  by (simp add: base_inventory_def inventory_doc_def)

lemma hostvars_lookup_host:
  "json_path [''_meta'', ''hostvars'', h] (host_inventory ip k)
     = (if h = ''jterrazz-infra'' then Some (host_vars ip k) else None)"
  by (simp add: host_inventory_def inventory_doc_def target_name_def)


subsection \<open>Paths\<close>

lemma dirname_append:
  assumes "d \<noteq> []" and "last d \<noteq> CHR ''/''" and "CHR ''/'' \<notin> set name"
  shows "dirname (d @ ''/'' @ name) = d"
proof -
  have "dropWhile (\<lambda>c. c \<noteq> CHR ''/'') (rev name) = []"
    using assms(3) by auto
  then have head: "rev (dropWhile (\<lambda>c. c \<noteq> CHR ''/'') (rev (d @ ''/'' @ name))) = d @ ''/''"
    using assms(3) by (simp add: dropWhile_append)
  have "last d \<in> set d" using assms(1) by simp
  then have notall: "\<not> list_all (\<lambda>c. c = CHR ''/'') (d @ ''/'')"
    using assms(2) by (auto simp: list_all_iff)
  obtain ys y where d: "d = ys @ [y]" using assms(1) by (cases d rule: rev_cases) auto
  have strip: "rev (dropWhile (\<lambda>c. c = CHR ''/'') (rev (d @ ''/''))) = d"
    using assms(2) unfolding d by simp
  have "dirname (d @ ''/'' @ name) = 
     (if d @ ''/'' \<noteq> [] \<and> \<not> list_all (\<lambda>c. c = CHR ''/'') (d @ ''/'')
      then rev (dropWhile (\<lambda>c. c = CHR ''/'') (rev (d @ ''/'')))
      else d @ ''/'')"
    unfolding dirname_def Let_def head ..
  also have "\<dots> = d" using notall strip by simp
  finally show ?thesis .
qed

lemma last_segment:
  assumes "s \<noteq> []" and "CHR ''/'' \<notin> set s"
  shows "last (d @ ''/'' @ s) \<noteq> CHR ''/''"
proof -
  have "last s \<in> set s" using assms(1) by simp
  then have "last s \<noteq> CHR ''/''" using assms(2) by auto
  then show ?thesis using assms(1) by simp
qed

lemma get_project_root_layout:
  assumes root: "root \<noteq> []" "last root \<noteq> CHR ''/''"
    and a: "a \<noteq> []" "CHR ''/'' \<notin> set a"
    and b: "b \<noteq> []" "CHR ''/'' \<notin> set b"
    and c: "c \<noteq> []" "CHR ''/'' \<notin> set c"
    and f: "CHR ''/'' \<notin> set f"
  shows "get_project_root (root @ ''/'' @ a @ ''/'' @ b @ ''/'' @ c @ ''/'' @ f) = root"
proof -
  have la: "last (root @ ''/'' @ a) \<noteq> CHR ''/''" using a by (rule last_segment)
  have lb: "last ((root @ ''/'' @ a) @ ''/'' @ b) \<noteq> CHR ''/''" using b by (rule last_segment)
  have lc: "last (((root @ ''/'' @ a) @ ''/'' @ b) @ ''/'' @ c) \<noteq> CHR ''/''"
    using c by (rule last_segment)
  have 1: "dirname ((((root @ ''/'' @ a) @ ''/'' @ b) @ ''/'' @ c) @ ''/'' @ f)
           = ((root @ ''/'' @ a) @ ''/'' @ b) @ ''/'' @ c"
    by (rule dirname_append) (use lc f in simp_all)
  have 2: "dirname (((root @ ''/'' @ a) @ ''/'' @ b) @ ''/'' @ c) = (root @ ''/'' @ a) @ ''/'' @ b"
    by (rule dirname_append) (use lb c in simp_all)
  have 3: "dirname ((root @ ''/'' @ a) @ ''/'' @ b) = root @ ''/'' @ a"
    by (rule dirname_append) (use la b in simp_all)
  have 4: "dirname (root @ ''/'' @ a) = root"
    by (rule dirname_append) (use root a in simp_all)
  have "get_project_root ((((root @ ''/'' @ a) @ ''/'' @ b) @ ''/'' @ c) @ ''/'' @ f) = root"
    unfolding get_project_root_def Let_def 1 2 3 4 ..
  then show ?thesis by simp
qed

lemma path_join_relative:
  "root \<noteq> [] \<Longrightarrow> last root \<noteq> CHR ''/'' \<Longrightarrow>
   path_join root ''local-data/ssh/id_rsa'' = root @ ''/local-data/ssh/id_rsa''"
  by (cases root rule: rev_cases) (auto simp: path_join_def suffix_def)


subsection \<open>The command line and the printed text\<close>

lemma main_raise:
  "get_inventory loads sp outcome = Inl e \<Longrightarrow> main loads sp outcome args = Inl e"
  by (simp add: main_def)

lemma main_list:
  "arg_list args \<Longrightarrow>
   main loads sp outcome args =
     (case get_inventory loads sp outcome of
        Inl e \<Rightarrow> Inl e
      | Inr doc \<Rightarrow> Inr (py_print (json_dumps 2 doc)))"
  by (simp add: main_def split: sum.split)

lemma main_default:
  "\<not> arg_list args \<Longrightarrow> \<not> host_given (arg_host args) \<Longrightarrow>
   main loads sp outcome args =
     (case get_inventory loads sp outcome of
        Inl e \<Rightarrow> Inl e
      | Inr doc \<Rightarrow> Inr (py_print (json_dumps 2 doc)))"
  by (simp add: main_def split: sum.split)

lemma main_host:
  assumes ret: "get_inventory loads sp outcome = Inr doc"
    and args: "\<not> arg_list args" "arg_host args = Some h" "h \<noteq> []"
  shows "main loads sp outcome args =
     Inr (py_print (json_dumps 2
            (case json_path [''_meta'', ''hostvars'', h] doc of
               Some hostvars \<Rightarrow> hostvars
             | None \<Rightarrow> JObj [])))"
  using get_inventory_cases [OF ret]
proof (elim disjE exE conjE)
  assume "doc = base_inventory"
  with ret args show ?thesis
    by (simp add: main_def hostvars_lookup_base) (simp add: base_inventory_def inventory_doc_def)
next
  fix ip
  assume "doc = host_inventory ip (path_join (get_project_root sp) ''local-data/ssh/id_rsa'')"
  with ret args show ?thesis
    by (simp add: main_def hostvars_lookup_host)
       (simp add: host_inventory_def inventory_doc_def target_name_def)
qed


lemma print_base_inventory: "py_print (json_dumps 2 base_inventory) = empty_inventory_text"
  by (simp add: py_print_def json_dumps_def base_inventory_def inventory_doc_def
      newline_indent_def encode_string_def escape_char_def numeral_2_eq_2
      empty_inventory_text_def text_lines_def quoted_def)

lemma print_host_vars:
  "py_print (json_dumps 2 (host_vars ''192.168.64.10'' ''/srv/infra/local-data/ssh/id_rsa''))
     = host_vars_text"
  by (simp add: py_print_def json_dumps_def host_vars_def ssh_common_args_def
      newline_indent_def encode_string_def escape_char_def numeral_2_eq_2
      host_vars_text_def text_lines_def quoted_def)


lemma dumps_inventory_neq_host_vars:
  "json_dumps 2 (inventory_doc hosts hv) \<noteq> json_dumps 2 (host_vars ip k)"
  by (simp add: json_dumps_def inventory_doc_def host_vars_def
      newline_indent_def encode_string_def escape_char_def numeral_2_eq_2)

lemma dumps_inventory_neq_empty:
  "json_dumps 2 (inventory_doc hosts hv) \<noteq> json_dumps 2 (JObj [])"
  by (simp add: json_dumps_def inventory_doc_def newline_indent_def)

subsection \<open>The example installation\<close>

lemma example_fetch:
  "get_multipass_vm_info (\<lambda>s. Some (vm_info_example ips)) (Exited 0 ''{}'')
     = Inr (vm_info_example ips)"
  by (simp add: get_multipass_vm_info_def json_loads_def)

lemma example_root:
  "get_project_root ''/srv/infra/ansible/inventories/multipass/inventory.py'' = ''/srv/infra''"
  by (rule get_project_root_layout [of "''/srv/infra''" "''ansible''" "''inventories''"
        "''multipass''" "''inventory.py''", simplified])

lemma example_key:
  "path_join (get_project_root ''/srv/infra/ansible/inventories/multipass/inventory.py'')
     ''local-data/ssh/id_rsa'' = ''/srv/infra/local-data/ssh/id_rsa''"
  unfolding example_root by (simp add: path_join_relative)

lemma example_inventory:
  "get_inventory
     (\<lambda>s. Some (vm_info_example [''127.0.0.1'', ''172.17.0.1'', ''10.42.0.5'', ''192.168.64.10'']))
     ''/srv/infra/ansible/inventories/multipass/inventory.py'' (Exited 0 ''{}'')
   = Inr (host_inventory ''192.168.64.10'' ''/srv/infra/local-data/ssh/id_rsa'')"
  unfolding get_inventory_fetch [OF example_fetch] example_key
  by (simp add: vm_info_example_def build_inventory_def target_name_def excluded_def)

section \<open>Properties of the script\<close>




text \<open>
  C2. For a target record in state \<^verbatim>\<open>Running\<close> whose \<^verbatim>\<open>ipv4\<close> entry is a list of strings,
  the selected address is the first one, in order, that starts with none of the prefixes
  \<^verbatim>\<open>127.\<close>, \<^verbatim>\<open>172.\<close> and \<^verbatim>\<open>10.42.\<close>; the document has one host when a non-empty address
  is selected and is the empty inventory otherwise. For the addresses 127.0.0.1,
  172.17.0.1, 10.42.0.5, 192.168.64.10 the selection is 192.168.64.10; for 10.42.0.5 alone
  nothing is selected.
\<close>

theorem first_qualifying_ip_selected:
  assumes fetch: "get_multipass_vm_info loads outcome = Inr (JObj kvs)"
    and lst: "map_of kvs ''list'' = Some (JArr (map JObj recs))"
    and target: "find named_target recs = Some r"
    and running: "map_of r ''state'' = Some (JStr ''Running'')"
    and ipv4: "map_of r ''ipv4'' = Some (JArr (map JStr ips))"
  shows "select_ip (map JStr ips) = Inr (find (\<lambda>ip. \<not> excluded ip) ips)
    \<and> get_inventory loads script_path outcome =
        Inr (case find (\<lambda>ip. \<not> excluded ip) ips of
               None \<Rightarrow> base_inventory
             | Some vm_ip \<Rightarrow>
                 if vm_ip = [] then base_inventory
                 else host_inventory vm_ip
                        (path_join (get_project_root script_path) ''local-data/ssh/id_rsa''))
    \<and> select_ip (map JStr [''127.0.0.1'', ''172.17.0.1'', ''10.42.0.5'', ''192.168.64.10''])
        = Inr (Some ''192.168.64.10'')
    \<and> select_ip (map JStr [''10.42.0.5'']) = Inr None"
proof -
  have sel: "select_ip (map JStr ips) = Inr (find (\<lambda>ip. \<not> excluded ip) ips)"
    by (rule select_ip_strings)
  have "get_inventory loads script_path outcome =
          build_inventory (path_join (get_project_root script_path) ''local-data/ssh/id_rsa'')
            (JObj kvs)"
    using fetch by (rule get_inventory_fetch)
  also have "\<dots> = Inr (case find (\<lambda>ip. \<not> excluded ip) ips of
               None \<Rightarrow> base_inventory
             | Some vm_ip \<Rightarrow>
                 if vm_ip = [] then base_inventory
                 else host_inventory vm_ip
                        (path_join (get_project_root script_path) ''local-data/ssh/id_rsa''))"
    by (simp add: build_inventory_running [OF lst target running] ipv4 sel split: option.split)
  finally have inv: "get_inventory loads script_path outcome = \<dots>" .
  have ex1: "select_ip (map JStr [''127.0.0.1'', ''172.17.0.1'', ''10.42.0.5'', ''192.168.64.10''])
        = Inr (Some ''192.168.64.10'')"
    by (simp add: excluded_def)
  have ex2: "select_ip (map JStr [''10.42.0.5'']) = Inr None"
    by (simp add: excluded_def)
  from sel inv ex1 ex2 show ?thesis by blast
qed

theorem first_qualifying_ip_selected_witness:
  "get_inventory (\<lambda>s. Some (vm_info_example [''127.0.0.1'', ''172.17.0.1'', ''10.42.0.5'', ''192.168.64.10'']))
     ''/srv/infra/ansible/inventories/multipass/inventory.py'' (Exited 0 ''{}'')
   = Inr (host_inventory ''192.168.64.10'' ''/srv/infra/local-data/ssh/id_rsa'')
   \<and> get_inventory (\<lambda>s. Some (vm_info_example [''10.42.0.5'']))
     ''/srv/infra/ansible/inventories/multipass/inventory.py'' (Exited 0 ''{}'')
   = Inr base_inventory"
proof -
  let ?sp = "''/srv/infra/ansible/inventories/multipass/inventory.py''"
  let ?r2 = "[(''ipv4'', JArr (map JStr [''10.42.0.5''])), (''name'', JStr ''jterrazz-infra''),
              (''release'', JStr ''Ubuntu 24.04 LTS''), (''state'', JStr ''Running'')]"
  let ?kvs2 = "[(''list'', JArr (map JObj [?r2]))]"
  have g1: "get_multipass_vm_info (\<lambda>s. Some (vm_info_example [''10.42.0.5''])) (Exited 0 ''{}'')
              = Inr (JObj ?kvs2)"
    by (simp add: get_multipass_vm_info_def json_loads_def vm_info_example_def)
  have g2: "map_of ?kvs2 ''list'' = Some (JArr (map JObj [?r2]))" by simp
  have g3: "find named_target [?r2] = Some ?r2" by (simp add: named_target_def target_name_def)
  have g4: "map_of ?r2 ''state'' = Some (JStr ''Running'')" by simp
  have g5: "map_of ?r2 ''ipv4'' = Some (JArr (map JStr [''10.42.0.5'']))" by simp
  have second: "get_inventory (\<lambda>s. Some (vm_info_example [''10.42.0.5''])) ?sp (Exited 0 ''{}'')
                  = Inr base_inventory"
    using first_qualifying_ip_selected [OF g1 g2 g3 g4 g5, of ?sp]
    by (simp add: excluded_def)
  let ?ips = "[''127.0.0.1'', ''172.17.0.1'', ''10.42.0.5'', ''192.168.64.10'']"
  let ?r = "[(''ipv4'', JArr (map JStr ?ips)), (''name'', JStr ''jterrazz-infra''),
             (''release'', JStr ''Ubuntu 24.04 LTS''), (''state'', JStr ''Running'')]"
  let ?kvs = "[(''list'', JArr (map JObj [?r]))]"
  have h1: "get_multipass_vm_info (\<lambda>s. Some (vm_info_example ?ips)) (Exited 0 ''{}'') = Inr (JObj ?kvs)"
    by (simp add: get_multipass_vm_info_def json_loads_def vm_info_example_def)
  have h2: "map_of ?kvs ''list'' = Some (JArr (map JObj [?r]))" by simp
  have h3: "find named_target [?r] = Some ?r" by (simp add: named_target_def target_name_def)
  have h4: "map_of ?r ''state'' = Some (JStr ''Running'')" by simp
  have h5: "map_of ?r ''ipv4'' = Some (JArr (map JStr ?ips))" by simp
  have first: "get_inventory (\<lambda>s. Some (vm_info_example ?ips)) ?sp (Exited 0 ''{}'')
                 = Inr (host_inventory ''192.168.64.10'' ''/srv/infra/local-data/ssh/id_rsa'')"
    using first_qualifying_ip_selected [OF h1 h2 h3 h4 h5, of ?sp]
    by (simp add: excluded_def example_key)
  from first second show ?thesis by simp
qed

text \<open>
  C3. When no record of the fetched list is named \<^verbatim>\<open>jterrazz-infra\<close>, or the first record so
  named is not in state \<^verbatim>\<open>Running\<close>, or every address of that record is excluded, the
  document returned by \<^verbatim>\<open>get_inventory\<close> has the keys \<^verbatim>\<open>all\<close>, \<^verbatim>\<open>development\<close> and
  \<^verbatim>\<open>_meta\<close>, an empty \<^verbatim>\<open>development.hosts\<close> and an empty \<^verbatim>\<open>_meta.hostvars\<close>.
\<close>

theorem empty_inventory_cases:
  assumes fetch: "get_multipass_vm_info loads outcome = Inr (JObj kvs)"
    and lst: "map_of kvs ''list'' = Some (JArr (map JObj recs))"
    and empty: "find named_target recs = None
       \<or> (\<exists>r. find named_target recs = Some r
              \<and> (map_of r ''state'' \<noteq> Some (JStr ''Running'')
                 \<or> (\<exists>ips. map_of r ''ipv4'' = Some (JArr (map JStr ips))
                          \<and> (\<forall>ip\<in>set ips. excluded ip))))"
  shows "\<exists>doc. get_inventory loads script_path outcome = Inr (JObj doc)
           \<and> map fst doc = [''all'', ''development'', ''_meta'']
           \<and> json_path [''development'', ''hosts''] (JObj doc) = Some (JArr [])
           \<and> json_path [''_meta'', ''hostvars''] (JObj doc) = Some (JObj [])"
proof -
  let ?k = "path_join (get_project_root script_path) ''local-data/ssh/id_rsa''"
  have "build_inventory ?k (JObj kvs) = Inr base_inventory"
    using empty
  proof (elim disjE exE conjE)
    assume "find named_target recs = None"
    with lst show ?thesis by (rule build_inventory_no_target)
  next
    fix r
    assume "find named_target recs = Some r" "map_of r ''state'' \<noteq> Some (JStr ''Running'')"
    with lst show ?thesis by (rule build_inventory_not_running)
  next
    fix r ips
    assume target: "find named_target recs = Some r"
      and ipv4: "map_of r ''ipv4'' = Some (JArr (map JStr ips))"
      and all: "\<forall>ip\<in>set ips. excluded ip"
    from all have none: "find (\<lambda>ip. \<not> excluded ip) ips = None"
      by (simp add: find_None_iff)
    show ?thesis
    proof (cases "map_of r ''state'' = Some (JStr ''Running'')")
      case True
      show ?thesis
        by (simp add: build_inventory_running [OF lst target True] ipv4 select_ip_strings none)
    next
      case False
      with lst target show ?thesis by (rule build_inventory_not_running)
    qed
  qed
  with fetch have "get_inventory loads script_path outcome = Inr base_inventory"
    by (simp add: get_inventory_fetch)
  then show ?thesis
    by (simp add: base_inventory_def inventory_doc_def)
qed

theorem empty_inventory_cases_witness:
  "\<exists>doc. get_inventory (\<lambda>s. Some (vm_info_example [''10.42.0.5'']))
            ''/srv/infra/ansible/inventories/multipass/inventory.py'' (Exited 0 ''{}'') = Inr (JObj doc)
         \<and> map fst doc = [''all'', ''development'', ''_meta'']
         \<and> json_path [''development'', ''hosts''] (JObj doc) = Some (JArr [])
         \<and> json_path [''_meta'', ''hostvars''] (JObj doc) = Some (JObj [])"
proof -
  let ?ips = "[''10.42.0.5'']"
  let ?r = "[(''ipv4'', JArr (map JStr ?ips)), (''name'', JStr ''jterrazz-infra''),
             (''release'', JStr ''Ubuntu 24.04 LTS''), (''state'', JStr ''Running'')]"
  let ?kvs = "[(''list'', JArr (map JObj [?r]))]"
  have h1: "get_multipass_vm_info (\<lambda>s. Some (vm_info_example ?ips)) (Exited 0 ''{}'') = Inr (JObj ?kvs)"
    by (simp add: get_multipass_vm_info_def json_loads_def vm_info_example_def)
  have h2: "map_of ?kvs ''list'' = Some (JArr (map JObj [?r]))" by simp
  have h3: "find named_target [?r] = None
       \<or> (\<exists>r. find named_target [?r] = Some r
              \<and> (map_of r ''state'' \<noteq> Some (JStr ''Running'')
                 \<or> (\<exists>ips. map_of r ''ipv4'' = Some (JArr (map JStr ips))
                          \<and> (\<forall>ip\<in>set ips. excluded ip))))"
  proof -
    have "map_of ?r ''ipv4'' = Some (JArr (map JStr ?ips)) \<and> (\<forall>ip\<in>set ?ips. excluded ip)"
      by (simp add: excluded_def)
    then have "\<exists>ips. map_of ?r ''ipv4'' = Some (JArr (map JStr ips)) \<and> (\<forall>ip\<in>set ips. excluded ip)"
      by (rule exI)
    moreover have "find named_target [?r] = Some ?r"
      by (simp add: named_target_def target_name_def)
    ultimately show ?thesis by blast
  qed
  show ?thesis
    by (rule empty_inventory_cases [OF h1 h2 h3])
qed




text \<open>
  C5. For every fetch result, \<^verbatim>\<open>--list\<close> prints the whole document and
  \<^verbatim>\<open>--host jterrazz-infra\<close> prints the value that this document has under
  \<^verbatim>\<open>_meta.hostvars.jterrazz-infra\<close> (the empty mapping when the document has no such
  entry); when \<^verbatim>\<open>get_inventory\<close> raises, both end with the same exception.
\<close>

theorem host_mode_agrees_with_list:
  "main loads script_path outcome \<lparr>arg_list = True, arg_host = None\<rparr>
     = (case get_inventory loads script_path outcome of
          Inl e \<Rightarrow> Inl e
        | Inr doc \<Rightarrow> Inr (py_print (json_dumps 2 doc)))
   \<and> main loads script_path outcome \<lparr>arg_list = False, arg_host = Some ''jterrazz-infra''\<rparr>
     = (case get_inventory loads script_path outcome of
          Inl e \<Rightarrow> Inl e
        | Inr doc \<Rightarrow>
            Inr (py_print (json_dumps 2
                   (case json_path [''_meta'', ''hostvars'', ''jterrazz-infra''] doc of
                      Some hostvars \<Rightarrow> hostvars
                    | None \<Rightarrow> JObj []))))"
proof (cases "get_inventory loads script_path outcome")
  case (Inl e)
  then show ?thesis by (simp add: main_raise)
next
  case (Inr doc)
  then show ?thesis by (simp add: main_list main_host)
qed

theorem host_mode_agrees_with_list_witness:
  "json_path [''_meta'', ''hostvars'', ''jterrazz-infra'']
      (host_inventory ''192.168.64.10'' ''/srv/infra/local-data/ssh/id_rsa'')
     = Some (host_vars ''192.168.64.10'' ''/srv/infra/local-data/ssh/id_rsa'')
   \<and> main (\<lambda>s. Some (vm_info_example [''127.0.0.1'', ''172.17.0.1'', ''10.42.0.5'', ''192.168.64.10'']))
       ''/srv/infra/ansible/inventories/multipass/inventory.py'' (Exited 0 ''{}'')
       \<lparr>arg_list = True, arg_host = None\<rparr>
     = Inr (py_print (json_dumps 2
         (host_inventory ''192.168.64.10'' ''/srv/infra/local-data/ssh/id_rsa'')))
   \<and> main (\<lambda>s. Some (vm_info_example [''127.0.0.1'', ''172.17.0.1'', ''10.42.0.5'', ''192.168.64.10'']))
       ''/srv/infra/ansible/inventories/multipass/inventory.py'' (Exited 0 ''{}'')
       \<lparr>arg_list = False, arg_host = Some ''jterrazz-infra''\<rparr>
     = Inr host_vars_text"
  using host_mode_agrees_with_list
    [of "\<lambda>s. Some (vm_info_example [''127.0.0.1'', ''172.17.0.1'', ''10.42.0.5'', ''192.168.64.10''])"
        "''/srv/infra/ansible/inventories/multipass/inventory.py''" "Exited 0 ''{}''"]
  by (simp add: example_inventory hostvars_lookup_host print_host_vars)

text \<open>
  C6. For every fetch result, the program run without flags writes the same text as the
  program run with \<^verbatim>\<open>--list\<close>: the inventory document printed by \<^verbatim>\<open>json.dumps\<close> with an
  indent of 2.
\<close>

theorem no_flags_same_as_list:
  "main loads script_path outcome \<lparr>arg_list = False, arg_host = None\<rparr>
     = main loads script_path outcome \<lparr>arg_list = True, arg_host = None\<rparr>
   \<and> main loads script_path outcome \<lparr>arg_list = True, arg_host = None\<rparr>
     = (case get_inventory loads script_path outcome of
          Inl e \<Rightarrow> Inl e
        | Inr doc \<Rightarrow> Inr (py_print (json_dumps 2 doc)))"
  by (simp add: main_list main_default)

theorem no_flags_same_as_list_witness:
  "main (\<lambda>s. None) ''/srv/infra/ansible/inventories/multipass/inventory.py'' (Exited 0 ''oops'')
      \<lparr>arg_list = False, arg_host = None\<rparr> = Inr empty_inventory_text
   \<and> main (\<lambda>s. None) ''/srv/infra/ansible/inventories/multipass/inventory.py'' (Exited 0 ''oops'')
      \<lparr>arg_list = True, arg_host = None\<rparr> = Inr empty_inventory_text"
proof -
  have fetch: "get_multipass_vm_info (\<lambda>s. None) (Exited 0 ''oops'') = Inr empty_vm_info"
    by (simp add: get_multipass_vm_info_def json_loads_def)
  have "get_inventory (\<lambda>s. None) ''/srv/infra/ansible/inventories/multipass/inventory.py''
          (Exited 0 ''oops'') = Inr base_inventory"
    by (simp add: get_inventory_fetch [OF fetch] build_inventory_empty_vm_info)
  then show ?thesis
    using no_flags_same_as_list [of "\<lambda>s. None"
        "''/srv/infra/ansible/inventories/multipass/inventory.py''" "Exited 0 ''oops''"]
    by (simp add: print_base_inventory)
qed




text \<open>
  C8. Every document returned by \<^verbatim>\<open>get_inventory\<close> has \<^verbatim>\<open>all.children\<close> equal to
  \<^verbatim>\<open>["development"]\<close>, \<^verbatim>\<open>development.hosts\<close> equal to \<^verbatim>\<open>[]\<close> or to \<^verbatim>\<open>["jterrazz-infra"]\<close>,
  no key of \<^verbatim>\<open>_meta.hostvars\<close> other than \<^verbatim>\<open>jterrazz-infra\<close>, and hosts if and only if it
  has host variables; and a document is returned for every fetch result of the expected
  shape.
\<close>

theorem inventory_shape_invariant:
  "(\<forall>doc. get_inventory loads script_path outcome = Inr doc \<longrightarrow> inventory_invariant doc)
   \<and> (\<forall>d. get_multipass_vm_info loads outcome = Inr d \<and> vm_info_shaped d
          \<longrightarrow> (\<exists>doc. get_inventory loads script_path outcome = Inr doc))"
proof (intro conjI allI impI)
  fix doc
  assume ret: "get_inventory loads script_path outcome = Inr doc"
  then obtain d where "get_multipass_vm_info loads outcome = Inr d"
    by (cases "get_multipass_vm_info loads outcome") (simp_all add: get_inventory_raise)
  with ret have "build_inventory (path_join (get_project_root script_path) ''local-data/ssh/id_rsa'') d = Inr doc"
    by (simp add: get_inventory_fetch)
  then show "inventory_invariant doc"
    using build_inventory_cases inventory_invariant_base inventory_invariant_host by blast
next
  fix d
  assume "get_multipass_vm_info loads outcome = Inr d \<and> vm_info_shaped d"
  then show "\<exists>doc. get_inventory loads script_path outcome = Inr doc"
    by (simp add: get_inventory_fetch build_inventory_total)
qed

theorem inventory_shape_invariant_witness:
  "\<exists>doc. get_inventory
       (\<lambda>s. Some (vm_info_example [''127.0.0.1'', ''172.17.0.1'', ''10.42.0.5'', ''192.168.64.10'']))
       ''/srv/infra/ansible/inventories/multipass/inventory.py'' (Exited 0 ''{}'') = Inr doc
     \<and> inventory_invariant doc"
proof -
  let ?ips = "[''127.0.0.1'', ''172.17.0.1'', ''10.42.0.5'', ''192.168.64.10'']"
  let ?sp = "''/srv/infra/ansible/inventories/multipass/inventory.py''"
  note inv = inventory_shape_invariant [of "\<lambda>s. Some (vm_info_example ?ips)" ?sp "Exited 0 ''{}''"]
  have shaped: "vm_info_shaped (vm_info_example ?ips)"
    by (simp add: vm_info_example_def)
  from inv example_fetch shaped
  obtain doc where ret: "get_inventory (\<lambda>s. Some (vm_info_example ?ips)) ?sp (Exited 0 ''{}'') = Inr doc"
    by blast
  with inv have "inventory_invariant doc" by blast
  with ret show ?thesis by blast
qed

text \<open>
  C9. When both \<^verbatim>\<open>--list\<close> and \<^verbatim>\<open>--host NAME\<close> are given, the whole document is printed,
  and the text differs from the one that \<^verbatim>\<open>--host NAME\<close> alone prints.
\<close>

theorem list_takes_precedence:
  "main loads script_path outcome \<lparr>arg_list = True, arg_host = Some h\<rparr>
     = (case get_inventory loads script_path outcome of
          Inl e \<Rightarrow> Inl e
        | Inr doc \<Rightarrow> Inr (py_print (json_dumps 2 doc)))
   \<and> (\<forall>doc. get_inventory loads script_path outcome = Inr doc \<and> h \<noteq> []
         \<longrightarrow> main loads script_path outcome \<lparr>arg_list = True, arg_host = Some h\<rparr>
             \<noteq> main loads script_path outcome \<lparr>arg_list = False, arg_host = Some h\<rparr>)"
proof (intro conjI allI impI)
  show "main loads script_path outcome \<lparr>arg_list = True, arg_host = Some h\<rparr>
     = (case get_inventory loads script_path outcome of
          Inl e \<Rightarrow> Inl e
        | Inr doc \<Rightarrow> Inr (py_print (json_dumps 2 doc)))"
    by (simp add: main_list)
next
  fix doc
  assume "get_inventory loads script_path outcome = Inr doc \<and> h \<noteq> []"
  then have ret: "get_inventory loads script_path outcome = Inr doc" and given: "h \<noteq> []"
    by simp_all
  have list: "main loads script_path outcome \<lparr>arg_list = True, arg_host = Some h\<rparr>
                = Inr (py_print (json_dumps 2 doc))"
    using ret by (simp add: main_list)
  have host: "main loads script_path outcome \<lparr>arg_list = False, arg_host = Some h\<rparr>
                = Inr (py_print (json_dumps 2
                   (case json_path [''_meta'', ''hostvars'', h] doc of
                      Some hostvars \<Rightarrow> hostvars
                    | None \<Rightarrow> JObj [])))"
    using ret given by (simp add: main_host)
  from get_inventory_cases [OF ret]
  have "json_dumps 2 doc \<noteq> json_dumps 2
                   (case json_path [''_meta'', ''hostvars'', h] doc of
                      Some hostvars \<Rightarrow> hostvars
                    | None \<Rightarrow> JObj [])"
  proof (elim disjE exE conjE)
    assume "doc = base_inventory"
    then show ?thesis
      by (simp add: hostvars_lookup_base) (simp add: base_inventory_def dumps_inventory_neq_empty)
  next
    fix ip
    assume "doc = host_inventory ip (path_join (get_project_root script_path) ''local-data/ssh/id_rsa'')"
    then show ?thesis
      by (simp add: hostvars_lookup_host)
         (simp add: host_inventory_def dumps_inventory_neq_host_vars dumps_inventory_neq_empty)
  qed
  with list host
  show "main loads script_path outcome \<lparr>arg_list = True, arg_host = Some h\<rparr>
             \<noteq> main loads script_path outcome \<lparr>arg_list = False, arg_host = Some h\<rparr>"
    by (simp add: py_print_def)
qed

theorem list_takes_precedence_witness:
  "main (\<lambda>s. None) ''/srv/infra/ansible/inventories/multipass/inventory.py'' (Exited 2 '''')
       \<lparr>arg_list = True, arg_host = Some ''jterrazz-infra''\<rparr> = Inr empty_inventory_text
   \<and> main (\<lambda>s. None) ''/srv/infra/ansible/inventories/multipass/inventory.py'' (Exited 2 '''')
       \<lparr>arg_list = True, arg_host = Some ''jterrazz-infra''\<rparr>
     \<noteq> main (\<lambda>s. None) ''/srv/infra/ansible/inventories/multipass/inventory.py'' (Exited 2 '''')
       \<lparr>arg_list = False, arg_host = Some ''jterrazz-infra''\<rparr>"
proof -
  let ?sp = "''/srv/infra/ansible/inventories/multipass/inventory.py''"
  have fetch: "get_multipass_vm_info (\<lambda>s. None) (Exited 2 '''') = Inr empty_vm_info"
    by (simp add: get_multipass_vm_info_def)
  have ret: "get_inventory (\<lambda>s. None) ?sp (Exited 2 '''') = Inr base_inventory"
    by (simp add: get_inventory_fetch [OF fetch] build_inventory_empty_vm_info)
  have given: "''jterrazz-infra'' \<noteq> []" by simp
  note inst = list_takes_precedence [of "\<lambda>s. None" ?sp "Exited 2 ''''" "''jterrazz-infra''"]
  from inst ret have "main (\<lambda>s. None) ?sp (Exited 2 '''')
       \<lparr>arg_list = True, arg_host = Some ''jterrazz-infra''\<rparr> = Inr empty_inventory_text"
    by (simp add: print_base_inventory)
  moreover from inst ret given have "main (\<lambda>s. None) ?sp (Exited 2 '''')
       \<lparr>arg_list = True, arg_host = Some ''jterrazz-infra''\<rparr>
     \<noteq> main (\<lambda>s. None) ?sp (Exited 2 '''')
       \<lparr>arg_list = False, arg_host = Some ''jterrazz-infra''\<rparr>"
    by blast
  ultimately show ?thesis by blast
qed

text \<open>
  C10. When the VM records are dicts, a record without a \<^verbatim>\<open>name\<close> key is passed over by
  the search for the target, a target record without a \<^verbatim>\<open>state\<close> key gives the empty
  inventory, and so does a running target record without an \<^verbatim>\<open>ipv4\<close> key; no exception
  is raised in these cases.
\<close>

theorem missing_keys_total:
  assumes fetch: "get_multipass_vm_info loads outcome = Inr (JObj kvs)"
    and lst: "map_of kvs ''list'' = Some (JArr (map JObj recs))"
  shows "(\<forall>r vms. map_of r ''name'' = None \<longrightarrow> find_target (JObj r # vms) = find_target vms)
    \<and> (\<forall>t. find named_target recs = Some t \<and> map_of t ''state'' = None
           \<longrightarrow> get_inventory loads script_path outcome = Inr base_inventory)
    \<and> (\<forall>t. find named_target recs = Some t \<and> map_of t ''state'' = Some (JStr ''Running'')
             \<and> map_of t ''ipv4'' = None
           \<longrightarrow> get_inventory loads script_path outcome = Inr base_inventory)"
proof (intro conjI allI impI)
  fix r :: "(string \<times> json) list" and vms
  assume "map_of r ''name'' = None"
  then show "find_target (JObj r # vms) = find_target vms" by simp
next
  fix t
  assume "find named_target recs = Some t \<and> map_of t ''state'' = None"
  then have "find named_target recs = Some t" "map_of t ''state'' \<noteq> Some (JStr ''Running'')"
    by simp_all
  with lst have "build_inventory (path_join (get_project_root script_path) ''local-data/ssh/id_rsa'')
      (JObj kvs) = Inr base_inventory"
    by (rule build_inventory_not_running)
  with fetch show "get_inventory loads script_path outcome = Inr base_inventory"
    by (simp add: get_inventory_fetch)
next
  fix t
  assume "find named_target recs = Some t \<and> map_of t ''state'' = Some (JStr ''Running'')
             \<and> map_of t ''ipv4'' = None"
  then have t: "find named_target recs = Some t" "map_of t ''state'' = Some (JStr ''Running'')"
    and no: "map_of t ''ipv4'' = None"
    by simp_all
  have "build_inventory (path_join (get_project_root script_path) ''local-data/ssh/id_rsa'')
      (JObj kvs) = Inr base_inventory"
    by (simp add: build_inventory_running [OF lst t] no)
  with fetch show "get_inventory loads script_path outcome = Inr base_inventory"
    by (simp add: get_inventory_fetch)
qed

theorem missing_keys_total_witness:
  "find_target [JObj [(''state'', JStr ''Running'')], JObj [(''name'', JStr ''jterrazz-infra'')]]
     = find_target [JObj [(''name'', JStr ''jterrazz-infra'')]]
   \<and> get_inventory
        (\<lambda>s. Some (JObj [(''list'', JArr [JObj [(''state'', JStr ''Running'')],
                                           JObj [(''name'', JStr ''jterrazz-infra'')]])]))
        ''/srv/infra/ansible/inventories/multipass/inventory.py'' (Exited 0 ''{}'')
      = Inr base_inventory
   \<and> get_inventory
        (\<lambda>s. Some (JObj [(''list'', JArr [JObj [(''name'', JStr ''jterrazz-infra''),
                                                 (''state'', JStr ''Running'')]])]))
        ''/srv/infra/ansible/inventories/multipass/inventory.py'' (Exited 0 ''{}'')
      = Inr base_inventory"
proof -
  let ?sp = "''/srv/infra/ansible/inventories/multipass/inventory.py''"
  let ?a = "[(''state'', JStr ''Running'')]"
  let ?b = "[(''name'', JStr ''jterrazz-infra'')]"
  let ?c = "[(''name'', JStr ''jterrazz-infra''), (''state'', JStr ''Running'')]"
  let ?k1 = "[(''list'', JArr (map JObj [?a, ?b]))]"
  let ?k2 = "[(''list'', JArr (map JObj [?c]))]"
  have f1: "get_multipass_vm_info (\<lambda>s. Some (JObj ?k1)) (Exited 0 ''{}'') = Inr (JObj ?k1)"
    by (simp add: get_multipass_vm_info_def json_loads_def)
  have f2: "get_multipass_vm_info (\<lambda>s. Some (JObj ?k2)) (Exited 0 ''{}'') = Inr (JObj ?k2)"
    by (simp add: get_multipass_vm_info_def json_loads_def)
  have l1: "map_of ?k1 ''list'' = Some (JArr (map JObj [?a, ?b]))" by simp
  have l2: "map_of ?k2 ''list'' = Some (JArr (map JObj [?c]))" by simp
  have t1: "find named_target [?a, ?b] = Some ?b \<and> map_of ?b ''state'' = None"
    by (simp add: named_target_def target_name_def)
  have t2: "find named_target [?c] = Some ?c \<and> map_of ?c ''state'' = Some (JStr ''Running'')
            \<and> map_of ?c ''ipv4'' = None"
    by (simp add: named_target_def target_name_def)
  have n: "map_of ?a ''name'' = None" by simp
  note m1 = missing_keys_total [OF f1 l1, of ?sp]
  note m2 = missing_keys_total [OF f2 l2, of ?sp]
  from m1 n have "find_target (JObj ?a # [JObj ?b]) = find_target [JObj ?b]" by blast
  moreover from m1 t1 have "get_inventory (\<lambda>s. Some (JObj ?k1)) ?sp (Exited 0 ''{}'') = Inr base_inventory"
    by blast
  moreover from m2 t2 have "get_inventory (\<lambda>s. Some (JObj ?k2)) ?sp (Exited 0 ''{}'') = Inr base_inventory"
    by blast
  ultimately show ?thesis by simp
qed

end
